theory Spec2Isabelle
  imports Complex_Main
begin

section \<open>Errors, tensors and the tensor primitives the code calls\<close>

text \<open>
  Every exception the modelled Python can raise is a value. A one-dimensional
  int64 tensor is a list of integers; Python integers are unbounded.
\<close>

datatype error =
  AssertionError | IndexError | KeyError | RuntimeError | TypeError | ZeroDivisionError

type_synonym tensor = "int list"

type_synonym PartitionBook = tensor

definition bindE :: "error + 'a \<Rightarrow> ('a \<Rightarrow> error + 'b) \<Rightarrow> error + 'b" where
  "bindE m f = (case m of Inl e \<Rightarrow> Inl e | Inr v \<Rightarrow> f v)"

fun mapE :: "('a \<Rightarrow> error + 'b) \<Rightarrow> 'a list \<Rightarrow> error + 'b list" where
  "mapE f [] = Inr []"
| "mapE f (x # xs) = bindE (f x) (\<lambda>y. bindE (mapE f xs) (\<lambda>ys. Inr (y # ys)))"

fun foldE :: "('s \<Rightarrow> 'a \<Rightarrow> error + 's) \<Rightarrow> 'a list \<Rightarrow> 's \<Rightarrow> error + 's" where
  "foldE f [] s = Inr s"
| "foldE f (x # xs) s = bindE (f s x) (foldE f xs)"

text \<open>\<open>range(n)\<close>: empty when \<open>n \<le> 0\<close>.\<close>

definition py_range :: "int \<Rightarrow> int list" where
  "py_range n = map int [0..<nat n]"

text \<open>\<open>torch.arange(n)\<close> raises for a negative bound.\<close>

definition arange :: "int \<Rightarrow> error + tensor" where
  "arange n = (if n < 0 then Inl RuntimeError else Inr (py_range n))"

text \<open>\<open>torch.zeros(n)\<close> raises for a negative size.\<close>

definition zeros :: "int \<Rightarrow> error + tensor" where
  "zeros n = (if n < 0 then Inl RuntimeError else Inr (replicate (nat n) 0))"

text \<open>\<open>xs[s:e]\<close>: a slice clips its bounds, it never raises.\<close>

definition py_slice :: "'a list \<Rightarrow> int \<Rightarrow> int \<Rightarrow> 'a list" where
  "py_slice xs s e =
     (let n = int (length xs);
          lo = (if s < 0 then max 0 (s + n) else min s n);
          hi = (if e < 0 then max 0 (e + n) else min e n)
      in take (nat (hi - lo)) (drop (nat lo) xs))"

text \<open>
  An index into a tensor of \<open>n\<close> elements: \<open>-n \<le> i < n\<close>, a negative index counts
  from the end, anything else raises IndexError.
\<close>

definition wrap_index :: "nat \<Rightarrow> int \<Rightarrow> error + nat" where
  "wrap_index n i =
     (if 0 \<le> i \<and> i < int n then Inr (nat i)
      else if - int n \<le> i \<and> i < 0 then Inr (nat (i + int n))
      else Inl IndexError)"

text \<open>\<open>t[idx]\<close> with an index tensor.\<close>

definition index_select :: "'a list \<Rightarrow> tensor \<Rightarrow> error + 'a list" where
  "index_select t idx = mapE (\<lambda>i. bindE (wrap_index (length t) i) (\<lambda>j. Inr (t ! j))) idx"

text \<open>\<open>t[idx] = v\<close> with a scalar \<open>v\<close>.\<close>

definition index_fill :: "'a list \<Rightarrow> tensor \<Rightarrow> 'a \<Rightarrow> error + 'a list" where
  "index_fill t idx v =
     bindE (mapE (wrap_index (length t)) idx) (\<lambda>js. Inr (foldl (\<lambda>a j. a[j := v]) t js))"

text \<open>
  \<open>t[idx] = vals\<close> with a tensor \<open>vals\<close> as long as \<open>idx\<close> (it is, at both call
  sites). The writes are applied in index order, so the last of two writes to one
  position stays.
\<close>

definition index_put :: "'a list \<Rightarrow> tensor \<Rightarrow> 'a list \<Rightarrow> error + 'a list" where
  "index_put t idx vals =
     bindE (mapE (wrap_index (length t)) idx)
       (\<lambda>js. Inr (foldl (\<lambda>a (j, v). a[j := v]) t (zip js vals)))"

text \<open>\<open>torch.max(t).item()\<close> raises on an empty tensor.\<close>

fun tensor_max :: "tensor \<Rightarrow> error + int" where
  "tensor_max [] = Inl RuntimeError"
| "tensor_max (x # xs) = Inr (fold max xs x)"

text \<open>\<open>torch.cat(ts)\<close> raises on an empty list of tensors.\<close>

definition cat :: "'a list list \<Rightarrow> error + 'a list" where
  "cat ts = (if ts = [] then Inl RuntimeError else Inr (concat ts))"

text \<open>
  \<open>torch.masked_select(input, mask)\<close> on one-dimensional operands: the shapes are
  broadcast (equal lengths, or one of them of length 1), else it raises.
\<close>

definition masked_select :: "'a list \<Rightarrow> bool list \<Rightarrow> error + 'a list" where
  "masked_select inp msk =
     (if length inp = length msk then Inr (map fst (filter snd (zip inp msk)))
      else if length msk = 1 then Inr (if hd msk then inp else [])
      else if length inp = 1 then Inr (concat (map (\<lambda>b. if b then inp else []) msk))
      else Inl RuntimeError)"

section \<open>The partitioner\<close>

text \<open>
  \<open>Union[X, Dict[T, X]]\<close>: a homogeneous graph has one value, a heterogeneous one a
  dict keyed by type (an association list in key order, keys distinct).
\<close>

datatype ('k, 'v) per_type = Plain 'v | Dict "('k \<times> 'v) list"

type_synonym 'nt EdgeType = "'nt \<times> string \<times> 'nt"

record ('nt, 'row) PartitionerBase =
  output_dir :: string
  num_parts :: int
  num_nodes :: "('nt, int) per_type"
  edge_index :: "('nt EdgeType, tensor \<times> tensor) per_type"
  node_feat :: "('nt, 'row list) per_type option"
  edge_feat :: "('nt EdgeType, 'row list) per_type option"
  data_cls :: string
  node_types :: "'nt list option"
  edge_types :: "'nt EdgeType list option"
  num_edges :: "('nt EdgeType, int) per_type"
  edge_assign_strategy :: string
  chunk_size :: int

record GraphPartitionData =
  edge_index :: "tensor \<times> tensor"
  eids :: tensor

text \<open>
  \<open>get_edge_index\<close>. A heterogeneous partitioner holds a dict (asserted by
  \<open>__init__\<close>); indexing anything else by an edge type is a TypeError.
\<close>

definition get_edge_index ::
  "('nt, 'row) PartitionerBase \<Rightarrow> 'nt EdgeType option
     \<Rightarrow> error + ('nt EdgeType, tensor \<times> tensor) per_type" where
  "get_edge_index self etype =
     (if ''hetero'' = data_cls self then
        (case etype of
           None \<Rightarrow> Inl AssertionError
         | Some et \<Rightarrow>
             (case PartitionerBase.edge_index self of
                Dict d \<Rightarrow> (case map_of d et of None \<Rightarrow> Inl KeyError | Some ei \<Rightarrow> Inr (Plain ei))
              | Plain ei \<Rightarrow> Inl TypeError))
      else Inr (PartitionerBase.edge_index self))"

text \<open>
  Lines 236-254 of \<open>_partition_graph\<close>: the two endpoint arrays, the node partition
  book that decides the shard, and the endpoint array it is read at.
\<close>

definition select_target ::
  "('nt, 'row) PartitionerBase \<Rightarrow> ('nt, PartitionBook) per_type \<Rightarrow> 'nt EdgeType option
     \<Rightarrow> error + (tensor \<times> tensor \<times> ('nt, PartitionBook) per_type \<times> tensor)" where
  "select_target self node_pb etype =
     bindE (get_edge_index self etype) (\<lambda>ei.
       (case ei of
          Dict d \<Rightarrow> Inl KeyError
        | Plain (rows, cols) \<Rightarrow>
            (if ''hetero'' = data_cls self then
               (case etype of
                  None \<Rightarrow> Inl AssertionError
                | Some (src_ntype, rel, dst_ntype) \<Rightarrow>
                    (case node_pb of
                       Plain pb \<Rightarrow> Inl AssertionError
                     | Dict d \<Rightarrow>
                         (if ''by_src'' = edge_assign_strategy self then
                            (case map_of d src_ntype of
                               None \<Rightarrow> Inl KeyError
                             | Some pb \<Rightarrow> Inr (rows, cols, Plain pb, rows))
                          else
                            (case map_of d dst_ntype of
                               None \<Rightarrow> Inl KeyError
                             | Some pb \<Rightarrow> Inr (rows, cols, Plain pb, cols)))))
             else
               Inr (rows, cols, node_pb,
                    if ''by_src'' = edge_assign_strategy self then rows else cols))))"

text \<open>\<open>target_node_pb[chunk_target_indices]\<close>: a dict has no tensor key.\<close>

definition pb_lookup :: "('nt, PartitionBook) per_type \<Rightarrow> tensor \<Rightarrow> error + tensor" where
  "pb_lookup pb idx = (case pb of Plain t \<Rightarrow> index_select t idx | Dict d \<Rightarrow> Inl KeyError)"

text \<open>One shard's share of one chunk (lines 270-275).\<close>

definition chunk_part ::
  "tensor \<Rightarrow> tensor \<Rightarrow> tensor \<Rightarrow> tensor \<Rightarrow> tensor \<Rightarrow> int \<Rightarrow> error + GraphPartitionData" where
  "chunk_part chunk_idx chunk_rows chunk_cols chunk_eids chunk_partition_idx pidx =
     (let msk = map (\<lambda>p. p = pidx) chunk_partition_idx in
      bindE (masked_select chunk_idx msk) (\<lambda>idx.
      bindE (index_select chunk_rows idx) (\<lambda>r.
      bindE (index_select chunk_cols idx) (\<lambda>c.
      bindE (index_select chunk_eids idx) (\<lambda>e.
        Inr \<lparr>edge_index = (r, c), eids = e\<rparr>)))))"

text \<open>
  One iteration of the chunk loop (lines 260-276), on the loop state
  \<open>(chunk_start_pos, res)\<close>.
\<close>

definition chunk_body ::
  "int \<Rightarrow> int \<Rightarrow> tensor \<Rightarrow> tensor \<Rightarrow> tensor \<Rightarrow> ('nt, PartitionBook) per_type \<Rightarrow> tensor
     \<Rightarrow> int \<times> GraphPartitionData list list
     \<Rightarrow> error + (int \<times> GraphPartitionData list list)" where
  "chunk_body nparts csize rows cols eids_all target_node_pb target_indices st =
     (let chunk_start_pos = fst st;
          res = snd st;
          edge_num = int (length rows);
          chunk_end_pos = min edge_num (chunk_start_pos + csize);
          current_chunk_size = chunk_end_pos - chunk_start_pos
      in
      bindE (arange current_chunk_size) (\<lambda>chunk_idx.
        (let chunk_rows = py_slice rows chunk_start_pos chunk_end_pos;
             chunk_cols = py_slice cols chunk_start_pos chunk_end_pos;
             chunk_eids = py_slice eids_all chunk_start_pos chunk_end_pos;
             chunk_target_indices = py_slice target_indices chunk_start_pos chunk_end_pos
         in
         bindE (pb_lookup target_node_pb chunk_target_indices) (\<lambda>chunk_partition_idx.
         bindE (mapE (chunk_part chunk_idx chunk_rows chunk_cols chunk_eids chunk_partition_idx)
                  (py_range nparts)) (\<lambda>parts.
           Inr (chunk_start_pos + current_chunk_size,
                map (\<lambda>(acc, g). acc @ [g]) (zip res parts)))))))"

text \<open>\<open>for _ in range(chunk_num)\<close>.\<close>

fun chunk_loop ::
  "nat \<Rightarrow> int \<Rightarrow> int \<Rightarrow> tensor \<Rightarrow> tensor \<Rightarrow> tensor \<Rightarrow> ('nt, PartitionBook) per_type \<Rightarrow> tensor
     \<Rightarrow> int \<times> GraphPartitionData list list
     \<Rightarrow> error + (int \<times> GraphPartitionData list list)" where
  "chunk_loop 0 nparts csize rows cols eids_all tpb tidx st = Inr st"
| "chunk_loop (Suc m) nparts csize rows cols eids_all tpb tidx st =
     bindE (chunk_body nparts csize rows cols eids_all tpb tidx st)
       (chunk_loop m nparts csize rows cols eids_all tpb tidx)"

text \<open>
  One iteration of the final loop (lines 281-288), on the state
  \<open>(partition_book, partition_results)\<close>.
\<close>

definition assemble_step ::
  "GraphPartitionData list list \<Rightarrow> PartitionBook \<times> GraphPartitionData list \<Rightarrow> int
     \<Rightarrow> error + (PartitionBook \<times> GraphPartitionData list)" where
  "assemble_step res st pidx =
     (let partition_book = fst st; partition_results = snd st in
      bindE (cat (map (\<lambda>r. fst (edge_index r)) (res ! nat pidx))) (\<lambda>p_rows.
      bindE (cat (map (\<lambda>r. snd (edge_index r)) (res ! nat pidx))) (\<lambda>p_cols.
      bindE (cat (map eids (res ! nat pidx))) (\<lambda>p_eids.
      bindE (index_fill partition_book p_eids pidx) (\<lambda>partition_book'.
        Inr (partition_book',
             partition_results @ [\<lparr>edge_index = (p_rows, p_cols), eids = p_eids\<rparr>]))))))"

text \<open>Lines 238-239 and 256-290 of \<open>_partition_graph\<close>.\<close>

definition partition_edges ::
  "int \<Rightarrow> int \<Rightarrow> tensor \<Rightarrow> tensor \<Rightarrow> ('nt, PartitionBook) per_type \<Rightarrow> tensor
     \<Rightarrow> error + (GraphPartitionData list \<times> PartitionBook)" where
  "partition_edges nparts csize rows cols target_node_pb target_indices =
     (let edge_num = int (length rows) in
      bindE (arange edge_num) (\<lambda>eids_all.
        if csize = 0 then Inl ZeroDivisionError
        else
          (let chunk_num = (edge_num + csize - 1) div csize;
               res0 = replicate (nat nparts) []
           in
           bindE (chunk_loop (nat chunk_num) nparts csize rows cols eids_all
                    target_node_pb target_indices (0, res0)) (\<lambda>st.
           bindE (zeros edge_num) (\<lambda>partition_book.
           bindE (foldE (assemble_step (snd st)) (py_range nparts) (partition_book, []))
             (\<lambda>fin. Inr (snd fin, fst fin)))))))"

text \<open>\<open>PartitionerBase._partition_graph\<close>.\<close>

definition partition_graph ::
  "('nt, 'row) PartitionerBase \<Rightarrow> ('nt, PartitionBook) per_type \<Rightarrow> 'nt EdgeType option
     \<Rightarrow> error + (GraphPartitionData list \<times> PartitionBook)" where
  "partition_graph self node_pb etype =
     bindE (select_target self node_pb etype) (\<lambda>(rows, cols, target_node_pb, target_indices).
       partition_edges (num_parts self) (chunk_size self) rows cols
         target_node_pb target_indices)"

text \<open>
  The outcome of the same computation with no chunking: the shard of every edge is
  read in one lookup, and shard \<open>k\<close> receives the edges whose shard is \<open>k\<close>, in
  input order. It is the reference the chunked loop is compared with.
\<close>

definition pick :: "int \<Rightarrow> 'a list \<Rightarrow> int list \<Rightarrow> 'a list" where
  "pick k xs shards = map fst (filter (\<lambda>xp. snd xp = k) (zip xs shards))"

definition gather :: "tensor \<Rightarrow> tensor \<Rightarrow> int list \<Rightarrow> int \<Rightarrow> GraphPartitionData" where
  "gather rows cols shards k =
     \<lparr>edge_index = (pick k rows shards, pick k cols shards),
      eids = pick k (py_range (int (length rows))) shards\<rparr>"

definition whole_step ::
  "tensor \<Rightarrow> tensor \<Rightarrow> int list \<Rightarrow> PartitionBook \<times> GraphPartitionData list \<Rightarrow> int
     \<Rightarrow> error + (PartitionBook \<times> GraphPartitionData list)" where
  "whole_step rows cols shards st k =
     bindE (index_fill (fst st) (eids (gather rows cols shards k)) k) (\<lambda>book.
       Inr (book, snd st @ [gather rows cols shards k]))"

definition partition_edges_whole ::
  "int \<Rightarrow> tensor \<Rightarrow> tensor \<Rightarrow> ('nt, PartitionBook) per_type \<Rightarrow> tensor
     \<Rightarrow> error + (GraphPartitionData list \<times> PartitionBook)" where
  "partition_edges_whole nparts rows cols target_node_pb target_indices =
     (if rows = [] then (if 0 < nparts then Inl RuntimeError else Inr ([], []))
      else
        bindE (pb_lookup target_node_pb target_indices) (\<lambda>shards.
        bindE (foldE (whole_step rows cols shards) (py_range nparts)
                 (replicate (length rows) 0, []))
          (\<lambda>fin. Inr (snd fin, fst fin))))"

section \<open>Construction of the partitioner\<close>

text \<open>
  Modelled from the spec: \<open>ensure_dir\<close> (utils, not under src/) is the opaque
  directory-creation primitive. The file system is the set of directories that
  exist; afterwards the directory exists.
\<close>

definition ensure_dir :: "string \<Rightarrow> string set \<Rightarrow> string set" where
  "ensure_dir d fs = insert d fs"

text \<open>\<open>str.lower()\<close> on ASCII letters.\<close>

definition lower :: "string \<Rightarrow> string" where
  "lower s =
     map (\<lambda>c. case map_of (zip ''ABCDEFGHIJKLMNOPQRSTUVWXYZ'' ''abcdefghijklmnopqrstuvwxyz'') c of
                 None \<Rightarrow> c | Some d \<Rightarrow> d) s"

definition is_dict :: "('k, 'v) per_type \<Rightarrow> bool" where
  "is_dict x = (case x of Plain v \<Rightarrow> False | Dict d \<Rightarrow> True)"

text \<open>
  \<open>PartitionerBase.__init__\<close> on the file system \<open>fs\<close>. The inputs are tensors
  already, so \<open>convert_to_tensor\<close> leaves them as they are.
\<close>

definition PartitionerBase_init ::
  "string \<Rightarrow> int \<Rightarrow> ('nt, int) per_type \<Rightarrow> ('nt EdgeType, tensor \<times> tensor) per_type
     \<Rightarrow> ('nt, 'row list) per_type option \<Rightarrow> ('nt EdgeType, 'row list) per_type option
     \<Rightarrow> string \<Rightarrow> int \<Rightarrow> string set
     \<Rightarrow> (error + ('nt, 'row) PartitionerBase) \<times> string set" where
  "PartitionerBase_init out_dir nparts nnodes eindex nfeat efeat strategy csize fs =
     (let fs' = ensure_dir out_dir fs;
          finish = (\<lambda>cls ntypes etypes nedges.
            if lower strategy \<in> set [''by_src'', ''by_dst''] then
              Inr \<lparr>output_dir = out_dir, num_parts = nparts, num_nodes = nnodes,
                   edge_index = eindex, node_feat = nfeat, edge_feat = efeat,
                   data_cls = cls, node_types = ntypes, edge_types = etypes,
                   num_edges = nedges, edge_assign_strategy = lower strategy,
                   chunk_size = csize\<rparr>
            else Inl AssertionError)
      in
      (if \<not> nparts > 1 then Inl AssertionError
       else
         (case nnodes of
            Dict nd \<Rightarrow>
              (case eindex of
                 Plain ei \<Rightarrow> Inl AssertionError
               | Dict ed \<Rightarrow>
                   if \<not> (case nfeat of None \<Rightarrow> True | Some f \<Rightarrow> is_dict f) then
                     Inl AssertionError
                   else if \<not> (case efeat of None \<Rightarrow> True | Some f \<Rightarrow> is_dict f) then
                     Inl AssertionError
                   else
                     finish ''hetero'' (Some (map fst nd)) (Some (map fst ed))
                       (Dict (map (\<lambda>(etype, index). (etype, int (length (fst index)))) ed)))
          | Plain n \<Rightarrow>
              (case eindex of
                 Plain ei \<Rightarrow> finish ''homo'' None None (Plain (int (length (fst ei))))
               | Dict ed \<Rightarrow> Inl KeyError)),
       fs'))"

section \<open>Merging a feature partition with its cache\<close>

record 'row FeaturePartitionData =
  feats :: "'row list"
  ids :: tensor
  cache_feats :: "'row list option"
  cache_ids :: "tensor option"

text \<open>
  Partition books are shared objects that \<open>cat_feature_cache\<close> clones and then
  writes to, so they live in a store: \<open>cells\<close> holds the tensor at each address and
  the addresses below \<open>next_free\<close> are allocated.
\<close>

type_synonym ref = nat

record store =
  cells :: "ref \<Rightarrow> tensor"
  next_free :: ref

text \<open>\<open>t.clone()\<close>: a new tensor with the same contents.\<close>

definition clone :: "ref \<Rightarrow> store \<Rightarrow> ref \<times> store" where
  "clone r s =
     (next_free s,
      s\<lparr>cells := (cells s)(next_free s := cells s r), next_free := Suc (next_free s)\<rparr>)"

text \<open>
  Lines 637-642 of \<open>cat_feature_cache\<close>: the id to index map of a partition with a
  cache, from the cache ids and the owned ids.
\<close>

definition build_nid2idx :: "tensor \<Rightarrow> tensor \<Rightarrow> error + tensor" where
  "build_nid2idx cids oids =
     bindE (tensor_max cids) (\<lambda>m1.
     bindE (tensor_max oids) (\<lambda>m2.
     bindE (zeros (max m1 m2 + 1)) (\<lambda>z.
     bindE (index_put z oids
              (map (\<lambda>i. i + int (length cids)) (py_range (int (length oids))))) (\<lambda>z1.
       index_put z1 cids (py_range (int (length cids)))))))"

text \<open>
  \<open>cat_feature_cache\<close>. \<open>id2idx\<close> (utils, not under src/) is a parameter. The cache
  ratio is the exact quotient, which Python rounds to the nearest double. The rows
  of \<open>cache_feats\<close> and \<open>feats\<close> are gathered from one feature tensor, so they have
  one dimension and \<open>torch.cat\<close> appends them.
\<close>

definition cat_feature_cache ::
  "(tensor \<Rightarrow> error + tensor) \<Rightarrow> int \<Rightarrow> 'row FeaturePartitionData \<Rightarrow> ref \<Rightarrow> store
     \<Rightarrow> (error + (rat \<times> 'row list \<times> tensor \<times> ref)) \<times> store" where
  "cat_feature_cache id2idx pidx feat_pdata feat_pb s =
     (case (cache_feats feat_pdata, cache_ids feat_pdata) of
        (Some cfeats, Some cids) \<Rightarrow>
          (if length cids + length (ids feat_pdata) = 0 then (Inl ZeroDivisionError, s)
           else
             (let cache_ratio =
                    of_nat (length cids) / of_nat (length cids + length (ids feat_pdata));
                  new_feats = cfeats @ feats feat_pdata
              in
              (case build_nid2idx cids (ids feat_pdata) of
                 Inl e \<Rightarrow> (Inl e, s)
               | Inr nid2idx \<Rightarrow>
                   (let (new_feat_pb, s1) = clone feat_pb s in
                    (case index_fill (cells s1 new_feat_pb) cids pidx of
                       Inl e \<Rightarrow> (Inl e, s1)
                     | Inr patched \<Rightarrow>
                         (Inr (cache_ratio, new_feats, nid2idx, new_feat_pb),
                          s1\<lparr>cells := (cells s1)(new_feat_pb := patched)\<rparr>))))))
      | _ \<Rightarrow>
          (bindE (id2idx (ids feat_pdata)) (\<lambda>m. Inr (0, feats feat_pdata, m, feat_pb)), s))"

text \<open>
  Modelled from the spec: \<open>id2idx\<close> (utils, not under src/) builds the id to index
  map directly from the ids: an array sized to the largest id plus one whose entry
  at the \<open>j\<close>-th id is \<open>j\<close>.
\<close>

definition id2idx_spec :: "tensor \<Rightarrow> error + tensor" where
  "id2idx_spec xs =
     bindE (tensor_max xs) (\<lambda>m.
     bindE (zeros (m + 1)) (\<lambda>z. index_put z xs (py_range (int (length xs)))))"

section \<open>The distributed dataset\<close>

record ('g, 'f, 'l) DistDataset =
  graph :: "'g option"
  node_features :: "'f option"
  edge_features :: "'f option"
  node_labels :: "'l option"
  num_partitions :: int
  partition_idx :: int
  node_pb :: "ref option"
  edge_pb :: "ref option"
  node_feat_pb_attr :: "ref option"
  edge_feat_pb_attr :: "ref option"

text \<open>
  \<open>DistDataset.__init__\<close>; the attributes \<open>_node_feat_pb\<close> and \<open>_edge_feat_pb\<close> are
  the fields \<open>node_feat_pb_attr\<close> and \<open>edge_feat_pb_attr\<close>. A partition book, or a
  dict of them, is held by reference.

  Modelled from the spec: \<open>Dataset.__init__\<close> (data, not under src/) stores the
  graph, the two feature partitions and the labels it is given.
\<close>

definition DistDataset_init ::
  "int \<Rightarrow> int \<Rightarrow> 'g option \<Rightarrow> 'f option \<Rightarrow> 'f option \<Rightarrow> 'l option
     \<Rightarrow> ref option \<Rightarrow> ref option \<Rightarrow> ref option \<Rightarrow> ref option
     \<Rightarrow> error + ('g, 'f, 'l) DistDataset" where
  "DistDataset_init nparts pidx graph_partition node_feature_partition
       edge_feature_partition whole_node_labels npb epb nfpb efpb =
     (let self = \<lparr>graph = graph_partition, node_features = node_feature_partition,
                  edge_features = edge_feature_partition, node_labels = whole_node_labels,
                  num_partitions = nparts, partition_idx = pidx,
                  node_pb = npb, edge_pb = epb,
                  node_feat_pb_attr = nfpb, edge_feat_pb_attr = efpb\<rparr>
      in
      if graph self \<noteq> None \<and> \<not> node_pb self \<noteq> None then Inl AssertionError
      else if node_features self \<noteq> None
              \<and> \<not> (node_pb self \<noteq> None \<or> node_feat_pb_attr self \<noteq> None)
        then Inl AssertionError
      else if edge_features self \<noteq> None
              \<and> \<not> (edge_pb self \<noteq> None \<or> edge_feat_pb_attr self \<noteq> None)
        then Inl AssertionError
      else Inr self)"

text \<open>The properties \<open>node_feat_pb\<close> and \<open>edge_feat_pb\<close>.\<close>

definition node_feat_pb :: "('g, 'f, 'l) DistDataset \<Rightarrow> ref option" where
  "node_feat_pb self =
     (if node_feat_pb_attr self = None then node_pb self else node_feat_pb_attr self)"

definition edge_feat_pb :: "('g, 'f, 'l) DistDataset \<Rightarrow> ref option" where
  "edge_feat_pb self =
     (if edge_feat_pb_attr self = None then edge_pb self else edge_feat_pb_attr self)"

section \<open>The dataset's feature books\<close>

text \<open>
  C9: a dataset constructed without a feature-specific node (edge) partition book
  returns the topology book itself, the same reference, from \<open>node_feat_pb\<close>
  (\<open>edge_feat_pb\<close>); constructed with one, it returns that book.
\<close>

theorem feat_pb_fallback:
  "DistDataset_init nparts pidx g nf ef lbl npb epb nfpb efpb = Inr ds \<Longrightarrow>
     node_pb ds = npb \<and> edge_pb ds = epb
     \<and> node_feat_pb ds = (case nfpb of None \<Rightarrow> npb | Some b \<Rightarrow> Some b)
     \<and> edge_feat_pb ds = (case efpb of None \<Rightarrow> epb | Some b \<Rightarrow> Some b)"
proof -
  assume h: "DistDataset_init nparts pidx g nf ef lbl npb epb nfpb efpb = Inr ds"
  have "ds = \<lparr>graph = g, node_features = nf, edge_features = ef, node_labels = lbl,
               num_partitions = nparts, partition_idx = pidx, node_pb = npb, edge_pb = epb,
               node_feat_pb_attr = nfpb, edge_feat_pb_attr = efpb\<rparr>"
    using h unfolding DistDataset_init_def Let_def
    by (simp split: if_splits)
  then show ?thesis
    by (cases nfpb; cases efpb; simp add: node_feat_pb_def edge_feat_pb_def)
qed

theorem feat_pb_fallback_witness:
  "DistDataset_init 2 0 (Some ()) (Some ()) (Some ()) (None :: unit option)
      (Some 3) (Some 4) None (Some 7)
     = Inr \<lparr>graph = Some (), node_features = Some (), edge_features = Some (),
            node_labels = None, num_partitions = 2, partition_idx = 0,
            node_pb = Some 3, edge_pb = Some 4,
            node_feat_pb_attr = None, edge_feat_pb_attr = Some 7\<rparr>
   \<and> node_feat_pb \<lparr>graph = Some (), node_features = Some (), edge_features = Some (),
            node_labels = (None :: unit option), num_partitions = 2, partition_idx = 0,
            node_pb = Some 3, edge_pb = Some 4,
            node_feat_pb_attr = None, edge_feat_pb_attr = Some 7\<rparr> = Some 3
   \<and> edge_feat_pb \<lparr>graph = Some (), node_features = Some (), edge_features = Some (),
            node_labels = (None :: unit option), num_partitions = 2, partition_idx = 0,
            node_pb = Some 3, edge_pb = Some 4,
            node_feat_pb_attr = None, edge_feat_pb_attr = Some 7\<rparr> = Some 7"
proof -
  have h: "DistDataset_init 2 0 (Some ()) (Some ()) (Some ()) (None :: unit option)
      (Some 3) (Some 4) None (Some 7)
     = Inr \<lparr>graph = Some (), node_features = Some (), edge_features = Some (),
            node_labels = None, num_partitions = 2, partition_idx = 0,
            node_pb = Some 3, edge_pb = Some 4,
            node_feat_pb_attr = None, edge_feat_pb_attr = Some 7\<rparr>"
    by (simp add: DistDataset_init_def)
  from feat_pb_fallback [OF h] h show ?thesis by simp
qed

section \<open>A partition without a cache\<close>

text \<open>
  C7: when the cache rows or the cache ids are absent, \<open>cat_feature_cache\<close> returns
  cache ratio 0, the owned feature tensor as it is, the id to index map that
  \<open>id2idx\<close> builds from the owned ids, and the input partition book itself (the
  same reference); the store is left as it was, so nothing is patched. It fails
  only where \<open>id2idx\<close> does.
\<close>

theorem no_cache_passthrough:
  "cache_feats fp = None \<or> cache_ids fp = None \<Longrightarrow>
     cat_feature_cache id2idx pidx fp pb s =
       (case id2idx (ids fp) of
          Inl e \<Rightarrow> (Inl e, s)
        | Inr m \<Rightarrow> (Inr (0, feats fp, m, pb), s))"
  by (auto simp: cat_feature_cache_def bindE_def split: option.splits sum.splits)

theorem no_cache_passthrough_witness:
  "(cache_feats \<lparr>feats = [''a'', ''b''], ids = [1, 2], cache_feats = None,
                 cache_ids = Some [0]\<rparr> = None
    \<or> cache_ids \<lparr>feats = [''a'', ''b''], ids = [1, 2], cache_feats = None,
                 cache_ids = Some [0]\<rparr> = None)
   \<and> cat_feature_cache id2idx_spec 1
        \<lparr>feats = [''a'', ''b''], ids = [1, 2], cache_feats = None, cache_ids = Some [0]\<rparr>
        0 \<lparr>cells = (\<lambda>r. [0, 1, 1]), next_free = 1\<rparr>
     = (Inr (0, [''a'', ''b''], [0, 0, 1], 0), \<lparr>cells = (\<lambda>r. [0, 1, 1]), next_free = 1\<rparr>)"
proof -
  have m: "id2idx_spec [1, 2] = Inr [0, 0, 1]"
    by (simp add: id2idx_spec_def bindE_def zeros_def index_put_def wrap_index_def
          py_range_def eval_nat_numeral upt_rec)
  show ?thesis
    using no_cache_passthrough [of "\<lparr>feats = [''a'', ''b''], ids = [1, 2], cache_feats = None,
        cache_ids = Some [0]\<rparr>" id2idx_spec 1 0 "\<lparr>cells = (\<lambda>r. [0, 1, 1]), next_free = 1\<rparr>"]
    by (simp add: m)
qed

section \<open>Rejection of a shard count below two\<close>

text \<open>
  C8, as the code has it: with \<open>num_parts \<le> 1\<close> the constructor fails with an
  AssertionError and builds no partitioner, but \<open>ensure_dir(output_dir)\<close> has run
  by then: the output directory exists afterwards, and that is the only effect.
\<close>

theorem init_rejects_after_ensure_dir:
  "nparts \<le> 1 \<Longrightarrow>
     PartitionerBase_init out_dir nparts nnodes eindex nfeat efeat strategy csize fs
       = (Inl AssertionError, ensure_dir out_dir fs)"
proof -
  assume "nparts \<le> 1"
  then have "\<not> nparts > 1"
    by simp
  then show ?thesis
    by (simp only: PartitionerBase_init_def Let_def if_True not_False_eq_True simp_thms)
qed

theorem init_rejects_after_ensure_dir_witness:
  "(0 :: int) \<le> 1
   \<and> PartitionerBase_init ''out'' 0 (Plain 6) (Plain ([0, 1], [1, 2]))
        (None :: (nat, int list) per_type option) None ''by_src'' 10 {''data''}
     = (Inl AssertionError, {''out'', ''data''})"
  using init_rejects_after_ensure_dir [of 0 "''out''" "Plain 6" "Plain ([0, 1], [1, 2])"
      "None :: (nat, int list) per_type option" None "''by_src''" 10 "{''data''}"]
  by (simp add: ensure_dir_def)

text \<open>
  The claim as the spec states it (no side effect before the rejection) fails:
  on a file system with no directory, the rejected construction with
  \<open>num_parts = 1\<close> leaves the output directory behind.
\<close>

theorem init_side_effect_counterexample:
  "PartitionerBase_init ''out'' 1 (Plain 6) (Plain ([0, 1], [1, 2]))
        (None :: (nat, int list) per_type option) None ''by_src'' 10 {}
     = (Inl AssertionError, {''out''})
   \<and> {''out''} \<noteq> ({} :: string set)"
proof -
  have "PartitionerBase_init d 1 nn ei nf ef st cs fs = (Inl AssertionError, ensure_dir d fs)"
    for d nn ei st cs fs
      and nf :: "(nat, int list) per_type option"
      and ef :: "(nat EdgeType, int list) per_type option"
    by (simp only: PartitionerBase_init_def Let_def less_irrefl if_True
          not_False_eq_True simp_thms)
  then show ?thesis
    by (simp add: ensure_dir_def)
qed

section \<open>Facts about the error monad and the tensor primitives\<close>

lemma bindE_Inr [simp]: "bindE (Inr v) f = f v"
  by (simp add: bindE_def)

lemma bindE_Inl [simp]: "bindE (Inl e) f = Inl e"
  by (simp add: bindE_def)

lemma bindE_eq_Inr: "bindE m f = Inr y \<longleftrightarrow> (\<exists>v. m = Inr v \<and> f v = Inr y)"
  by (cases m) auto

lemma mapE_eq_Inr: "mapE f xs = Inr ys \<longleftrightarrow> list_all2 (\<lambda>x y. f x = Inr y) xs ys"
proof (induction xs arbitrary: ys)
  case Nil
  then show ?case by auto
next
  case (Cons x xs)
  show ?case
    by (cases ys) (auto simp: bindE_eq_Inr Cons.IH)
qed

lemma mapE_map: "(\<And>x. x \<in> set xs \<Longrightarrow> f x = Inr (g x)) \<Longrightarrow> mapE f xs = Inr (map g xs)"
  by (induction xs) auto

lemma mapE_fail:
  "x \<in> set xs \<Longrightarrow> f x = Inl e \<Longrightarrow> (\<And>y. y \<in> set xs \<Longrightarrow> f y = Inl e \<or> (\<exists>v. f y = Inr v))
     \<Longrightarrow> mapE f xs = Inl e"
proof (induction xs)
  case Nil
  then show ?case by simp
next
  case (Cons a xs)
  show ?case
  proof (cases "f a")
    case (Inl e')
    with Cons.prems(3) [of a] show ?thesis by simp
  next
    case (Inr v)
    with Cons.prems have "x \<in> set xs" by auto
    with Cons have "mapE f xs = Inl e" by simp
    with Inr show ?thesis by simp
  qed
qed

lemma wrap_index_nonneg: "0 \<le> i \<Longrightarrow> i < int n \<Longrightarrow> wrap_index n i = Inr (nat i)"
  by (simp add: wrap_index_def)

lemma wrap_index_less: "wrap_index n i = Inr j \<Longrightarrow> j < n"
  by (auto simp: wrap_index_def split: if_splits)

lemma wrap_index_cases: "wrap_index n i = Inl IndexError \<or> (\<exists>j. wrap_index n i = Inr j)"
  by (simp add: wrap_index_def)

lemma length_fill: "length (foldl (\<lambda>a j. a[j := v]) t js) = length t"
  by (induction js arbitrary: t) auto

lemma nth_fill:
  "k < length t \<Longrightarrow> foldl (\<lambda>a j. a[j := v]) t js ! k = (if k \<in> set js then v else t ! k)"
  by (induction js arbitrary: t) (auto simp: length_fill nth_list_update)

lemma length_put: "length (foldl (\<lambda>a (j, v). a[j := v]) t jvs) = length t"
  by (induction jvs arbitrary: t) auto

lemma nth_put_other:
  "k \<notin> fst ` set jvs \<Longrightarrow> foldl (\<lambda>a (j, v). a[j := v]) t jvs ! k = t ! k"
  by (induction jvs arbitrary: t) (auto simp: nth_list_update)

lemma nth_put_hit:
  "distinct (map fst jvs) \<Longrightarrow> (j, v) \<in> set jvs \<Longrightarrow> j < length t
     \<Longrightarrow> foldl (\<lambda>a (j, v). a[j := v]) t jvs ! j = v"
proof (induction jvs arbitrary: t)
  case Nil
  then show ?case by simp
next
  case (Cons a jvs)
  obtain j' v' where a: "a = (j', v')" by (cases a)
  show ?case
  proof (cases "(j, v) = a")
    case True
    with Cons.prems a have "j \<notin> fst ` set jvs" by auto
    with True a Cons.prems(3) show ?thesis by (simp add: nth_put_other)
  next
    case False
    with Cons.prems a have "(j, v) \<in> set jvs" "distinct (map fst jvs)" by auto
    with Cons.IH [of "t[j' := v']"] Cons.prems(3) a show ?thesis by simp
  qed
qed

lemma tensor_max_eq: "tensor_max xs = Inr m \<longleftrightarrow> xs \<noteq> [] \<and> m = Max (set xs)"
proof (cases xs)
  case Nil
  then show ?thesis by simp
next
  case (Cons a list)
  have "fold max list a = Max (set (a # list))"
    by (rule Max.set_eq_fold [symmetric])
  with Cons show ?thesis by auto
qed

section \<open>Facts about the id to index map\<close>

lemma bindE_InrE:
  assumes "bindE m f = Inr y"
  obtains v where "m = Inr v" and "f v = Inr y"
  using assms by (cases m) auto

lemma wrap_all_nonneg:
  "list_all2 (\<lambda>x y. wrap_index n x = Inr y) xs ys \<Longrightarrow> \<forall>x\<in>set xs. 0 \<le> x \<Longrightarrow> ys = map nat xs"
  by (induction rule: list_all2_induct) (auto simp: wrap_index_def split: if_splits)

lemma wrap_all_less:
  "list_all2 (\<lambda>x y. wrap_index n x = Inr y) xs ys \<Longrightarrow> \<forall>y\<in>set ys. y < n"
  by (induction rule: list_all2_induct) (auto dest: wrap_index_less)

lemma mapE_wrap_nonneg:
  "\<forall>x\<in>set xs. 0 \<le> x \<and> x < int n \<Longrightarrow> mapE (wrap_index n) xs = Inr (map nat xs)"
  by (rule mapE_map) (simp add: wrap_index_nonneg)

lemma py_range_int: "py_range (int n) = map int [0..<n]"
  by (simp add: py_range_def)

lemma distinct_map_nat: "distinct xs \<Longrightarrow> \<forall>x\<in>set xs. (0::int) \<le> x \<Longrightarrow> distinct (map nat xs)"
  by (auto simp: distinct_map eq_nat_nat_iff intro!: inj_onI)

lemma index_select_one:
  "0 \<le> i \<Longrightarrow> i < int (length t) \<Longrightarrow> index_select t [i] = Inr [t ! nat i]"
  by (simp add: index_select_def wrap_index_def)

lemma index_put_Inr:
  assumes "index_put t idx vals = Inr t'"
  obtains js where "list_all2 (\<lambda>x y. wrap_index (length t) x = Inr y) idx js"
    and "t' = foldl (\<lambda>a (j, v). a[j := v]) t (zip js vals)"
proof -
  from assms obtain js where 1: "mapE (wrap_index (length t)) idx = Inr js"
    and 2: "Inr (foldl (\<lambda>a (j, v). a[j := v]) t (zip js vals)) = (Inr t' :: error + 'a list)"
    unfolding index_put_def by (rule bindE_InrE)
  from 1 have "list_all2 (\<lambda>x y. wrap_index (length t) x = Inr y) idx js"
    by (simp add: mapE_eq_Inr)
  moreover from 2 have "t' = foldl (\<lambda>a (j, v). a[j := v]) t (zip js vals)"
    by simp
  ultimately show ?thesis ..
qed

text \<open>What a successful construction of the id to index map has computed.\<close>

lemma build_nid2idx_Inr:
  assumes "build_nid2idx ci oi = Inr m"
  obtains jsi jsc where "ci \<noteq> []" and "oi \<noteq> []"
    and "list_all2 (\<lambda>x y. wrap_index (nat (max (Max (set ci)) (Max (set oi)) + 1)) x = Inr y) oi jsi"
    and "list_all2 (\<lambda>x y. wrap_index (nat (max (Max (set ci)) (Max (set oi)) + 1)) x = Inr y) ci jsc"
    and "0 \<le> max (Max (set ci)) (Max (set oi)) + 1"
    and "m = foldl (\<lambda>a (j, v). a[j := v])
             (foldl (\<lambda>a (j, v). a[j := v])
                (replicate (nat (max (Max (set ci)) (Max (set oi)) + 1)) 0)
                (zip jsi (map (\<lambda>i. i + int (length ci)) (py_range (int (length oi))))))
             (zip jsc (py_range (int (length ci))))"
proof -
  let ?M = "max (Max (set ci)) (Max (set oi))"
  from assms obtain m1 where a1: "tensor_max ci = Inr m1"
    and r1: "bindE (tensor_max oi) (\<lambda>m2.
               bindE (zeros (max m1 m2 + 1)) (\<lambda>z.
               bindE (index_put z oi
                        (map (\<lambda>i. i + int (length ci)) (py_range (int (length oi))))) (\<lambda>z1.
                 index_put z1 ci (py_range (int (length ci)))))) = Inr m"
    unfolding build_nid2idx_def by (rule bindE_InrE)
  from r1 obtain m2 where a2: "tensor_max oi = Inr m2"
    and r2: "bindE (zeros (max m1 m2 + 1)) (\<lambda>z.
               bindE (index_put z oi
                        (map (\<lambda>i. i + int (length ci)) (py_range (int (length oi))))) (\<lambda>z1.
                 index_put z1 ci (py_range (int (length ci))))) = Inr m"
    by (rule bindE_InrE)
  from a1 a2 have ne: "ci \<noteq> []" "oi \<noteq> []" and M: "max m1 m2 = ?M"
    by (simp_all add: tensor_max_eq)
  from r2 obtain z where a3: "zeros (?M + 1) = Inr z"
    and r3: "bindE (index_put z oi
                        (map (\<lambda>i. i + int (length ci)) (py_range (int (length oi))))) (\<lambda>z1.
                 index_put z1 ci (py_range (int (length ci)))) = Inr m"
    unfolding M by (rule bindE_InrE)
  from a3 have pos: "0 \<le> ?M + 1" and z: "z = replicate (nat (?M + 1)) 0"
    by (simp_all add: zeros_def split: if_splits)
  from r3 obtain z1 where a4: "index_put z oi
        (map (\<lambda>i. i + int (length ci)) (py_range (int (length oi)))) = Inr z1"
    and a5: "index_put z1 ci (py_range (int (length ci))) = Inr m"
    by (rule bindE_InrE)
  from a4 obtain jsi where i1: "list_all2 (\<lambda>x y. wrap_index (length z) x = Inr y) oi jsi"
    and i2: "z1 = foldl (\<lambda>a (j, v). a[j := v]) z
                    (zip jsi (map (\<lambda>i. i + int (length ci)) (py_range (int (length oi)))))"
    by (rule index_put_Inr)
  from a5 obtain jsc where c1: "list_all2 (\<lambda>x y. wrap_index (length z1) x = Inr y) ci jsc"
    and c2: "m = foldl (\<lambda>a (j, v). a[j := v]) z1 (zip jsc (py_range (int (length ci))))"
    by (rule index_put_Inr)
  have lz: "length z = nat (?M + 1)" and lz1: "length z1 = nat (?M + 1)"
    by (simp_all add: z i2 length_put)
  from i1 have i1': "list_all2 (\<lambda>x y. wrap_index (nat (?M + 1)) x = Inr y) oi jsi"
    by (simp only: lz)
  from c1 have c1': "list_all2 (\<lambda>x y. wrap_index (nat (?M + 1)) x = Inr y) ci jsc"
    by (simp only: lz1)
  from c2 have c2': "m = foldl (\<lambda>a (j, v). a[j := v])
             (foldl (\<lambda>a (j, v). a[j := v])
                (replicate (nat (?M + 1)) 0)
                (zip jsi (map (\<lambda>i. i + int (length ci)) (py_range (int (length oi))))))
             (zip jsc (py_range (int (length ci))))"
    by (simp only: i2 z)
  show ?thesis
    using ne i1' c1' pos c2' by (rule that)
qed


lemma index_fill_Inr:
  assumes "index_fill t idx v = Inr t'"
  obtains js where "list_all2 (\<lambda>x y. wrap_index (length t) x = Inr y) idx js"
    and "t' = foldl (\<lambda>a j. a[j := v]) t js"
proof -
  from assms obtain js where 1: "mapE (wrap_index (length t)) idx = Inr js"
    and 2: "Inr (foldl (\<lambda>a j. a[j := v]) t js) = (Inr t' :: error + 'a list)"
    unfolding index_fill_def by (rule bindE_InrE)
  from 1 have "list_all2 (\<lambda>x y. wrap_index (length t) x = Inr y) idx js"
    by (simp add: mapE_eq_Inr)
  moreover from 2 have "t' = foldl (\<lambda>a j. a[j := v]) t js"
    by simp
  ultimately show ?thesis ..
qed

lemma Max_two:
  "xs \<noteq> [] \<Longrightarrow> ys \<noteq> [] \<Longrightarrow> Max (set xs \<union> set ys) = max (Max (set xs)) (Max (set (ys :: int list)))"
  by (simp add: Max_Un)

lemma in_zip_nth: "k < length xs \<Longrightarrow> k < length ys \<Longrightarrow> (xs ! k, ys ! k) \<in> set (zip xs ys)"
  by (metis in_set_zip fst_conv snd_conv)

lemma fst_zip_subset: "fst ` set (zip xs ys) \<subseteq> set xs"
  by (auto dest: set_zip_leftD)

lemma nat_notin: "i \<notin> set xs \<Longrightarrow> 0 \<le> i \<Longrightarrow> \<forall>x\<in>set xs. (0::int) \<le> x \<Longrightarrow> nat i \<notin> set (map nat xs)"
  by (auto simp: eq_nat_nat_iff)

text \<open>The id to index map of non-negative ids.\<close>

lemma nid2idx_shape:
  assumes b: "build_nid2idx ci oi = Inr m"
    and nonneg: "\<forall>i\<in>set ci \<union> set oi. 0 \<le> i"
  shows "ci \<noteq> []" and "oi \<noteq> []"
    and "length m = nat (Max (set ci \<union> set oi) + 1)"
    and "\<forall>i\<in>set ci \<union> set oi. nat i < length m"
    and "m = foldl (\<lambda>a (j, v). a[j := v])
             (foldl (\<lambda>a (j, v). a[j := v])
                (replicate (nat (Max (set ci \<union> set oi) + 1)) 0)
                (zip (map nat oi) (map (\<lambda>i. int i + int (length ci)) [0..<length oi])))
             (zip (map nat ci) (map int [0..<length ci]))"
proof -
  let ?M = "max (Max (set ci)) (Max (set oi))"
  from b obtain jsi jsc where ne: "ci \<noteq> []" "oi \<noteq> []"
    and i: "list_all2 (\<lambda>x y. wrap_index (nat (?M + 1)) x = Inr y) oi jsi"
    and c: "list_all2 (\<lambda>x y. wrap_index (nat (?M + 1)) x = Inr y) ci jsc"
    and m: "m = foldl (\<lambda>a (j, v). a[j := v])
             (foldl (\<lambda>a (j, v). a[j := v])
                (replicate (nat (?M + 1)) 0)
                (zip jsi (map (\<lambda>i. i + int (length ci)) (py_range (int (length oi))))))
             (zip jsc (py_range (int (length ci))))"
    by (rule build_nid2idx_Inr)
  have M: "Max (set ci \<union> set oi) = ?M"
    using ne by (rule Max_two)
  from i nonneg have ji: "jsi = map nat oi"
    by (intro wrap_all_nonneg) auto
  from c nonneg have jc: "jsc = map nat ci"
    by (intro wrap_all_nonneg) auto
  show "ci \<noteq> []" and "oi \<noteq> []"
    by (rule ne)+
  show len: "length m = nat (Max (set ci \<union> set oi) + 1)"
    by (simp add: m length_put M)
  from wrap_all_less [OF i] wrap_all_less [OF c]
  show "\<forall>i\<in>set ci \<union> set oi. nat i < length m"
    by (auto simp: ji jc len M)
  have v: "map (\<lambda>i. i + int (length ci)) (map int [0..<length oi])
             = map (\<lambda>i. int i + int (length ci)) [0..<length oi]"
    by (simp add: comp_def)
  show "m = foldl (\<lambda>a (j, v). a[j := v])
             (foldl (\<lambda>a (j, v). a[j := v])
                (replicate (nat (Max (set ci \<union> set oi) + 1)) 0)
                (zip (map nat oi) (map (\<lambda>i. int i + int (length ci)) [0..<length oi])))
             (zip (map nat ci) (map int [0..<length ci]))"
    unfolding m ji jc M py_range_int v ..
qed

lemma nid2idx_unseen:
  assumes b: "build_nid2idx ci oi = Inr m"
    and nonneg: "\<forall>i\<in>set ci \<union> set oi. 0 \<le> i"
    and i: "0 \<le> i" "i \<le> Max (set ci \<union> set oi)" "i \<notin> set ci \<union> set oi"
  shows "m ! nat i = 0" and "nat i < length m"
proof -
  let ?n = "nat (Max (set ci \<union> set oi) + 1)"
  let ?z1 = "foldl (\<lambda>a (j, v). a[j := v]) (replicate ?n (0::int))
                (zip (map nat oi) (map (\<lambda>i. int i + int (length ci)) [0..<length oi]))"
  from b nonneg have len: "length m = ?n"
    and m: "m = foldl (\<lambda>a (j, v). a[j := v]) ?z1 (zip (map nat ci) (map int [0..<length ci]))"
    by (rule nid2idx_shape)+
  from i show lt: "nat i < length m"
    by (simp add: len)
  have nc: "\<forall>x\<in>set ci. 0 \<le> x" and no: "\<forall>x\<in>set oi. 0 \<le> x"
    using nonneg by auto
  have ic: "i \<notin> set ci" and io: "i \<notin> set oi"
    using i(3) by auto
  have "nat i \<notin> set (map nat ci)"
    using ic i(1) nc by (rule nat_notin)
  moreover have "nat i \<notin> set (map nat oi)"
    using io i(1) no by (rule nat_notin)
  ultimately have 1: "nat i \<notin> fst ` set (zip (map nat ci) (map int [0..<length ci]))"
    and 2: "nat i \<notin> fst ` set (zip (map nat oi) (map (\<lambda>i. int i + int (length ci)) [0..<length oi]))"
    using fst_zip_subset [of "map nat ci" "map int [0..<length ci]"]
      fst_zip_subset [of "map nat oi" "map (\<lambda>i. int i + int (length ci)) [0..<length oi]"]
    by blast+
  have "m ! nat i = ?z1 ! nat i"
    unfolding m using 1 by (rule nth_put_other)
  also have "\<dots> = replicate ?n (0::int) ! nat i"
    using 2 by (rule nth_put_other)
  also have "\<dots> = 0"
    using lt by (simp add: len)
  finally show "m ! nat i = 0" .
qed

lemma nid2idx_cache:
  assumes b: "build_nid2idx ci oi = Inr m"
    and nonneg: "\<forall>i\<in>set ci \<union> set oi. 0 \<le> i"
    and d: "distinct ci" and k: "k < length ci"
  shows "m ! nat (ci ! k) = int k" and "nat (ci ! k) < length m"
proof -
  let ?n = "nat (Max (set ci \<union> set oi) + 1)"
  let ?z1 = "foldl (\<lambda>a (j, v). a[j := v]) (replicate ?n (0::int))
                (zip (map nat oi) (map (\<lambda>i. int i + int (length ci)) [0..<length oi]))"
  from b nonneg have bound: "\<forall>i\<in>set ci \<union> set oi. nat i < length m"
    and m: "m = foldl (\<lambda>a (j, v). a[j := v]) ?z1 (zip (map nat ci) (map int [0..<length ci]))"
    by (rule nid2idx_shape)+
  from k bound show lt: "nat (ci ! k) < length m"
    by simp
  then have lt1: "nat (ci ! k) < length ?z1"
    by (simp add: m length_put)
  have dm: "distinct (map fst (zip (map nat ci) (map int [0..<length ci])))"
    using d nonneg by (simp add: distinct_map_nat)
  have mem: "(nat (ci ! k), int k) \<in> set (zip (map nat ci) (map int [0..<length ci]))"
    using in_zip_nth [of k "map nat ci" "map int [0..<length ci]"] k by simp
  show "m ! nat (ci ! k) = int k"
    unfolding m using dm mem lt1 by (rule nth_put_hit)
qed

lemma nid2idx_owned:
  assumes b: "build_nid2idx ci oi = Inr m"
    and nonneg: "\<forall>i\<in>set ci \<union> set oi. 0 \<le> i"
    and d: "distinct oi" and dj: "set ci \<inter> set oi = {}" and j: "j < length oi"
  shows "m ! nat (oi ! j) = int (length ci + j)" and "nat (oi ! j) < length m"
proof -
  let ?n = "nat (Max (set ci \<union> set oi) + 1)"
  let ?V1 = "map (\<lambda>i. int i + int (length ci)) [0..<length oi]"
  let ?z1 = "foldl (\<lambda>a (j, v). a[j := v]) (replicate ?n (0::int)) (zip (map nat oi) ?V1)"
  from b nonneg have bound: "\<forall>i\<in>set ci \<union> set oi. nat i < length m"
    and m: "m = foldl (\<lambda>a (j, v). a[j := v]) ?z1 (zip (map nat ci) (map int [0..<length ci]))"
    by (rule nid2idx_shape)+
  from j bound show lt: "nat (oi ! j) < length m"
    by simp
  then have lt0: "nat (oi ! j) < length (replicate ?n (0::int))"
    by (simp add: m length_put)
  have "oi ! j \<notin> set ci" "0 \<le> oi ! j"
    using j dj nonneg by (auto dest: nth_mem)
  moreover have "\<forall>x\<in>set ci. 0 \<le> x"
    using nonneg by auto
  ultimately have "nat (oi ! j) \<notin> set (map nat ci)"
    by (rule nat_notin)
  then have 1: "nat (oi ! j) \<notin> fst ` set (zip (map nat ci) (map int [0..<length ci]))"
    using fst_zip_subset [of "map nat ci" "map int [0..<length ci]"] by blast
  have dm: "distinct (map fst (zip (map nat oi) ?V1))"
    using d nonneg by (simp add: distinct_map_nat)
  have mem: "(nat (oi ! j), int (length ci + j)) \<in> set (zip (map nat oi) ?V1)"
    using in_zip_nth [of j "map nat oi" ?V1] j by (simp add: add.commute)
  have "m ! nat (oi ! j) = ?z1 ! nat (oi ! j)"
    unfolding m using 1 by (rule nth_put_other)
  also have "\<dots> = int (length ci + j)"
    using dm mem lt0 by (rule nth_put_hit)
  finally show "m ! nat (oi ! j) = int (length ci + j)" .
qed

text \<open>The call on a partition with a cache, branch by branch.\<close>

lemma cache_call:
  assumes "cache_feats fp = Some cf" and "cache_ids fp = Some ci"
  shows "cat_feature_cache id2idx pidx fp pb s =
    (if length ci + length (ids fp) = 0 then (Inl ZeroDivisionError, s)
     else
       (case build_nid2idx ci (ids fp) of
          Inl e \<Rightarrow> (Inl e, s)
        | Inr m \<Rightarrow>
            (case index_fill (cells s pb) ci pidx of
               Inl e \<Rightarrow>
                 (Inl e, s\<lparr>cells := (cells s)(next_free s := cells s pb),
                            next_free := Suc (next_free s)\<rparr>)
             | Inr patched \<Rightarrow>
                 (Inr (of_nat (length ci) / of_nat (length ci + length (ids fp)),
                       cf @ feats fp, m, next_free s),
                  s\<lparr>cells := (cells s)(next_free s := patched),
                     next_free := Suc (next_free s)\<rparr>))))"
  by (simp add: cat_feature_cache_def assms clone_def Let_def split: sum.splits)

lemma cache_call_Inr:
  assumes c: "cache_feats fp = Some cf" "cache_ids fp = Some ci"
    and r: "cat_feature_cache id2idx pidx fp pb s = (Inr (ratio, nf, m, r), s')"
  obtains patched where "build_nid2idx ci (ids fp) = Inr m"
    and "index_fill (cells s pb) ci pidx = Inr patched"
    and "ratio = of_nat (length ci) / of_nat (length ci + length (ids fp))"
    and "nf = cf @ feats fp" and "r = next_free s"
    and "s' = s\<lparr>cells := (cells s)(next_free s := patched), next_free := Suc (next_free s)\<rparr>"
  using r unfolding cache_call [OF c]
  by (auto split: if_splits sum.splits)

lemma cache_call_frame:
  assumes c: "cache_feats fp = Some cf" "cache_ids fp = Some ci"
    and r: "cat_feature_cache id2idx pidx fp pb s = (out, s')"
    and a: "a < next_free s"
  shows "cells s' a = cells s a"
  using r a unfolding cache_call [OF c]
  by (auto split: if_splits sum.splits)

end
